theory Spec2Isabelle
  imports Main "HOL-Library.Word"
begin

section \<open>Atomic.h: explicit-ordering atomic cells\<close>

text \<open>
  A shallow embedding of \<^verbatim>\<open>swift/Runtime/Atomic.h\<close>: the generic cell
  \<^verbatim>\<open>atomic_impl<Value, Size>\<close>, which forwards to \<^verbatim>\<open>std::atomic<Value>\<close>, and
  its specialisation for \<^verbatim>\<open>Size = 2 * sizeof(void*)\<close> on \<^verbatim>\<open>_WIN64\<close>, which
  issues the \<^verbatim>\<open>_InterlockedCompareExchange128\<close> intrinsics directly.

  The embedding is sequential: one thread, one cell. An operation takes the cell and
  returns the new cell with its result; an assertion that fires and a violated
  precondition of the standard library are error values.
\<close>

subsection \<open>Memory orderings and the preprocessor configuration\<close>

text \<open>The enumeration \<^verbatim>\<open>std::memory_order\<close>.\<close>

datatype memory_order =
    memory_order_relaxed
  | memory_order_consume
  | memory_order_acquire
  | memory_order_release
  | memory_order_acq_rel
  | memory_order_seq_cst

text \<open>
  The predefined macros the header tests, one flag per macro (\<open>def_arm\<close> is
  \<^verbatim>\<open>defined(__arm__)\<close>, \<open>def_M_ARM\<close> is \<^verbatim>\<open>defined(_M_ARM)\<close>, and so on), and
  \<open>def_NDEBUG\<close>, which turns \<^verbatim>\<open>assert\<close> of \<^verbatim>\<open><assert.h>\<close> into a no-op.
\<close>

record target =
  def_arm :: bool
  def_M_ARM :: bool
  def_arm64 :: bool
  def_aarch64 :: bool
  def_M_ARM64 :: bool
  def_NDEBUG :: bool

definition SWIFT_MEMORY_ORDER_CONSUME :: "target \<Rightarrow> memory_order" where
  "SWIFT_MEMORY_ORDER_CONSUME t =
     (if def_arm t \<or> def_M_ARM t \<or> def_arm64 t \<or> def_aarch64 t \<or> def_M_ARM64 t
      then memory_order_relaxed
      else memory_order_consume)"

definition SWIFT_HAS_MSVC_ARM_ATOMICS :: "target \<Rightarrow> bool" where
  "SWIFT_HAS_MSVC_ARM_ATOMICS t = (def_M_ARM t \<or> def_arm t \<or> def_aarch64 t)"

subsection \<open>Errors\<close>

text \<open>
  \<open>AssertionFailure\<close>: an \<^verbatim>\<open>assert\<close> of the header fired (the program aborts).
  \<open>UndefinedBehaviour\<close>: a compare-exchange of \<^verbatim>\<open>std::atomic\<close> was given a
  failure order outside its precondition.
\<close>

datatype error = AssertionFailure | UndefinedBehaviour

text \<open>\<^verbatim>\<open>assert(c)\<close>: checked unless \<^verbatim>\<open>NDEBUG\<close> is defined.\<close>

definition c_assert :: "target \<Rightarrow> bool \<Rightarrow> error + unit" where
  "c_assert t c = (if def_NDEBUG t \<or> c then Inr () else Inl AssertionFailure)"

subsection \<open>The native primitive \<^verbatim>\<open>std::atomic<Value>\<close>\<close>

text \<open>
  Modelled from the spec: \<^verbatim>\<open>std::atomic<Value>\<close> of the C++ standard library, which
  the header includes and which is not part of the repository. The object holds one
  value. \<open>load\<close> returns it, whatever the order: the library checks nothing, and
  a load with \<^verbatim>\<open>release\<close> or \<^verbatim>\<open>acq_rel\<close>, outside the contract, returns the
  stored value like any other. \<open>compare_exchange_weak\<close> compares the object with \<open>expected\<close>: if
  equal it stores \<open>desired\<close> and returns success, if not it writes the object's value
  into \<open>expected\<close> and returns failure; the failure order must not be \<^verbatim>\<open>release\<close>
  or \<^verbatim>\<open>acq_rel\<close>. The weak form may fail spuriously although the comparison would
  have succeeded: the flag \<open>spurious\<close> is that choice of the hardware. For one thread
  the orderings have no other effect on the values.
\<close>

type_synonym 'v std_atomic = 'v

definition std_atomic_load :: "'v std_atomic \<Rightarrow> memory_order \<Rightarrow> error + 'v" where
  "std_atomic_load obj order = Inr obj"

definition std_atomic_compare_exchange_weak ::
  "bool \<Rightarrow> 'v std_atomic \<Rightarrow> 'v \<Rightarrow> 'v \<Rightarrow> memory_order \<Rightarrow> memory_order
     \<Rightarrow> error + (bool \<times> 'v \<times> 'v std_atomic)" where
  "std_atomic_compare_exchange_weak spurious obj expected desired success failure =
     (if failure = memory_order_release \<or> failure = memory_order_acq_rel
      then Inl UndefinedBehaviour
      else if obj = expected \<and> \<not> spurious
      then Inr (True, expected, desired)
      else Inr (False, obj, obj))"

subsection \<open>The generic cell \<^verbatim>\<open>atomic_impl<Value, Size>\<close>\<close>

text \<open>
  The member \<^verbatim>\<open>std::atomic<Value> value\<close> is the field \<open>val\<close>. The result of
  \<open>compare_exchange_weak\<close> is the returned flag, the new contents of the reference
  \<open>oldValue\<close> and the new cell.
\<close>

record 'v atomic_impl =
  val :: "'v std_atomic"

definition atomic_impl_ctor :: "'v \<Rightarrow> 'v atomic_impl" where
  "atomic_impl_ctor v = \<lparr>val = v\<rparr>"

definition atomic_impl_load :: "'v atomic_impl \<Rightarrow> memory_order \<Rightarrow> error + 'v" where
  "atomic_impl_load c order = std_atomic_load (val c) order"

definition atomic_impl_compare_exchange_weak ::
  "bool \<Rightarrow> 'v atomic_impl \<Rightarrow> 'v \<Rightarrow> 'v \<Rightarrow> memory_order \<Rightarrow> memory_order
     \<Rightarrow> error + (bool \<times> 'v \<times> 'v atomic_impl)" where
  "atomic_impl_compare_exchange_weak spurious c oldValue newValue successOrder failureOrder =
     (case std_atomic_compare_exchange_weak spurious (val c) oldValue newValue
             successOrder failureOrder of
        Inl e \<Rightarrow> Inl e
      | Inr (r, oldValue', obj') \<Rightarrow> Inr (r, oldValue', c\<lparr>val := obj'\<rparr>))"

subsection \<open>The 128-bit compare-exchange intrinsics\<close>

text \<open>
  A 16-byte value as the code reads it through \<^verbatim>\<open>reinterpret_cast<__int64*>\<close>:
  the pair of element 0 and element 1 of an \<^verbatim>\<open>__int64[2]\<close>.
\<close>

type_synonym int64 = "64 word"
type_synonym int64x2 = "int64 \<times> int64"

text \<open>
  The four intrinsics \<^verbatim>\<open>_InterlockedCompareExchange128_nf\<close>, \<^verbatim>\<open>_acq\<close>,
  \<^verbatim>\<open>_rel\<close> and \<^verbatim>\<open>_InterlockedCompareExchange128\<close> differ in the fence only.
\<close>

datatype fence = NoFence | AcquireFence | ReleaseFence | FullFence

text \<open>One issued intrinsic: its fence and its arguments.\<close>

record icx_call =
  variant :: fence
  ExchangeHigh :: int64
  ExchangeLow :: int64
  Comparand :: int64x2

text \<open>
  The wide cell: the member \<^verbatim>\<open>volatile Value atomicValue\<close>, and the intrinsics
  issued on it so far, oldest first (not a member: the record of what ran).
\<close>

record atomic_impl_wide =
  atomicValue :: int64x2
  issued :: "icx_call list"

text \<open>
  Modelled from the spec: the compiler intrinsic
  \<^verbatim>\<open>_InterlockedCompareExchange128(Destination, ExchangeHigh, ExchangeLow, ComparandResult)\<close>
  and its \<^verbatim>\<open>_nf\<close>, \<^verbatim>\<open>_acq\<close>, \<^verbatim>\<open>_rel\<close> forms, declared in \<^verbatim>\<open><intrin.h>\<close> and
  not part of the repository. It compares the destination with the comparand; if they
  are equal it stores \<open>ExchangeLow\<close> in element 0 and \<open>ExchangeHigh\<close> in element
  1 of the destination; it always reports the prior contents of the destination in
  \<open>ComparandResult\<close>; it returns 1 if it stored and 0 if not. The result is the
  returned flag, the new \<open>ComparandResult\<close> and the new cell.
\<close>

definition InterlockedCompareExchange128 ::
  "fence \<Rightarrow> atomic_impl_wide \<Rightarrow> int64 \<Rightarrow> int64 \<Rightarrow> int64x2
     \<Rightarrow> bool \<times> int64x2 \<times> atomic_impl_wide" where
  "InterlockedCompareExchange128 f c hi lo ComparandResult =
     (let prior = atomicValue c;
          c' = c\<lparr>issued := issued c @
                 [\<lparr>variant = f, ExchangeHigh = hi, ExchangeLow = lo,
                   Comparand = ComparandResult\<rparr>]\<rparr>
      in if prior = ComparandResult
         then (True, prior, c'\<lparr>atomicValue := (lo, hi)\<rparr>)
         else (False, prior, c'))"

subsection \<open>The wide cell \<^verbatim>\<open>atomic_impl<Value, 2 * sizeof(void*)>\<close>\<close>

definition atomic_impl_wide_ctor :: "int64x2 \<Rightarrow> atomic_impl_wide" where
  "atomic_impl_wide_ctor initialValue = \<lparr>atomicValue = initialValue, issued = []\<rparr>"

text \<open>
  \<open>load\<close>: the assertion, then a compare-exchange with \<^verbatim>\<open>resultArray = {}\<close> as the
  comparand and 0, 0 as the new value; \<open>resultArray\<close> is returned.
\<close>

definition atomic_impl_wide_load ::
  "target \<Rightarrow> atomic_impl_wide \<Rightarrow> memory_order \<Rightarrow> error + (int64x2 \<times> atomic_impl_wide)" where
  "atomic_impl_wide_load t c order =
     (case c_assert t (order = memory_order_relaxed \<or>
                       order = memory_order_acquire \<or>
                       order = memory_order_consume) of
        Inl e \<Rightarrow> Inl e
      | Inr _ \<Rightarrow>
          (let resultArray = (0, 0);
               (r, resultArray', c') =
                 (if SWIFT_HAS_MSVC_ARM_ATOMICS t
                  then (if order \<noteq> memory_order_acquire
                        then InterlockedCompareExchange128 NoFence c 0 0 resultArray
                        else InterlockedCompareExchange128 FullFence c 0 0 resultArray)
                  else InterlockedCompareExchange128 FullFence c 0 0 resultArray)
           in Inr (resultArray', c')))"

text \<open>
  \<open>compare_exchange_weak\<close>: the two assertions, then the intrinsic chosen by the
  orderings, with element 1 of \<open>newValue\<close> as the high half, element 0 as the low
  half and \<open>oldValue\<close> as the comparand and result.
\<close>

definition atomic_impl_wide_compare_exchange_weak ::
  "target \<Rightarrow> atomic_impl_wide \<Rightarrow> int64x2 \<Rightarrow> int64x2 \<Rightarrow> memory_order \<Rightarrow> memory_order
     \<Rightarrow> error + (bool \<times> int64x2 \<times> atomic_impl_wide)" where
  "atomic_impl_wide_compare_exchange_weak t c oldValue newValue successOrder failureOrder =
     (case c_assert t (failureOrder = memory_order_relaxed \<or>
                       failureOrder = memory_order_acquire \<or>
                       failureOrder = memory_order_consume) of
        Inl e \<Rightarrow> Inl e
      | Inr _ \<Rightarrow>
     (case c_assert t (successOrder = memory_order_relaxed \<or>
                       successOrder = memory_order_release) of
        Inl e \<Rightarrow> Inl e
      | Inr _ \<Rightarrow>
          Inr (if SWIFT_HAS_MSVC_ARM_ATOMICS t
               then (if successOrder = memory_order_relaxed \<and>
                        failureOrder \<noteq> memory_order_acquire
                     then InterlockedCompareExchange128 NoFence c
                            (snd newValue) (fst newValue) oldValue
                     else if successOrder = memory_order_relaxed
                     then InterlockedCompareExchange128 AcquireFence c
                            (snd newValue) (fst newValue) oldValue
                     else if failureOrder \<noteq> memory_order_acquire
                     then InterlockedCompareExchange128 ReleaseFence c
                            (snd newValue) (fst newValue) oldValue
                     else InterlockedCompareExchange128 FullFence c
                            (snd newValue) (fst newValue) oldValue)
               else InterlockedCompareExchange128 FullFence c
                      (snd newValue) (fst newValue) oldValue)))"

subsection \<open>Sequences of operations on one cell\<close>

text \<open>
  A single-threaded test: a list of calls run in order on one cell, stopping at the
  first error. Each call yields what the caller sees: the loaded value, or the flag and
  the new contents of \<open>expected\<close>. On the generic cell each call carries the
  flag that says whether the weak compare-exchange fails spuriously there.
\<close>

datatype 'v cell_op =
    Load memory_order
  | CompareExchangeWeak 'v 'v memory_order memory_order

datatype 'v cell_result = Loaded 'v | Exchanged bool 'v

fun generic_step ::
  "bool \<Rightarrow> 'v atomic_impl \<Rightarrow> 'v cell_op \<Rightarrow> error + ('v cell_result \<times> 'v atomic_impl)" where
  "generic_step spurious c (Load order) =
     (case atomic_impl_load c order of
        Inl e \<Rightarrow> Inl e
      | Inr v \<Rightarrow> Inr (Loaded v, c))"
| "generic_step spurious c (CompareExchangeWeak expected desired so fo) =
     (case atomic_impl_compare_exchange_weak spurious c expected desired so fo of
        Inl e \<Rightarrow> Inl e
      | Inr (r, expected', c') \<Rightarrow> Inr (Exchanged r expected', c'))"

fun wide_step ::
  "target \<Rightarrow> atomic_impl_wide \<Rightarrow> int64x2 cell_op
     \<Rightarrow> error + (int64x2 cell_result \<times> atomic_impl_wide)" where
  "wide_step t c (Load order) =
     (case atomic_impl_wide_load t c order of
        Inl e \<Rightarrow> Inl e
      | Inr (v, c') \<Rightarrow> Inr (Loaded v, c'))"
| "wide_step t c (CompareExchangeWeak expected desired so fo) =
     (case atomic_impl_wide_compare_exchange_weak t c expected desired so fo of
        Inl e \<Rightarrow> Inl e
      | Inr (r, expected', c') \<Rightarrow> Inr (Exchanged r expected', c'))"

fun run_generic ::
  "'v atomic_impl \<Rightarrow> (bool \<times> 'v cell_op) list
     \<Rightarrow> error + ('v cell_result list \<times> 'v atomic_impl)" where
  "run_generic c [] = Inr ([], c)"
| "run_generic c ((spurious, x) # xs) =
     (case generic_step spurious c x of
        Inl e \<Rightarrow> Inl e
      | Inr (r, c') \<Rightarrow>
          (case run_generic c' xs of
             Inl e \<Rightarrow> Inl e
           | Inr (rs, c'') \<Rightarrow> Inr (r # rs, c'')))"

fun run_wide ::
  "target \<Rightarrow> atomic_impl_wide \<Rightarrow> int64x2 cell_op list
     \<Rightarrow> error + (int64x2 cell_result list \<times> atomic_impl_wide)" where
  "run_wide t c [] = Inr ([], c)"
| "run_wide t c (x # xs) =
     (case wide_step t c x of
        Inl e \<Rightarrow> Inl e
      | Inr (r, c') \<Rightarrow>
          (case run_wide t c' xs of
             Inl e \<Rightarrow> Inl e
           | Inr (rs, c'') \<Rightarrow> Inr (r # rs, c'')))"

text \<open>
  The orderings both cells take: those the assertions of the wide cell accept, which
  are within the preconditions of \<^verbatim>\<open>std::atomic\<close>.
\<close>

fun legal_for_both :: "'v cell_op \<Rightarrow> bool" where
  "legal_for_both (Load order) =
     (order = memory_order_relaxed \<or> order = memory_order_acquire \<or>
      order = memory_order_consume)"
| "legal_for_both (CompareExchangeWeak expected desired so fo) =
     ((so = memory_order_relaxed \<or> so = memory_order_release) \<and>
      (fo = memory_order_relaxed \<or> fo = memory_order_acquire \<or>
       fo = memory_order_consume))"

subsection \<open>Two concrete configurations\<close>

text \<open>
  A debug build for x64 (none of the ARM macros, assertions on) and one for ARM64 with
  a compiler that defines \<^verbatim>\<open>__aarch64__\<close>.
\<close>

definition win64_x64_debug :: target where
  "win64_x64_debug =
     \<lparr>def_arm = False, def_M_ARM = False, def_arm64 = False, def_aarch64 = False,
      def_M_ARM64 = False, def_NDEBUG = False\<rparr>"

definition win64_arm64_debug :: target where
  "win64_arm64_debug =
     \<lparr>def_arm = False, def_M_ARM = False, def_arm64 = False, def_aarch64 = True,
      def_M_ARM64 = True, def_NDEBUG = False\<rparr>"

section \<open>Properties\<close>

subsection \<open>What the operations compute\<close>

lemma icx_equal:
  "atomicValue c = cmp \<Longrightarrow>
   InterlockedCompareExchange128 f c hi lo cmp =
     (True, cmp, \<lparr>atomicValue = (lo, hi),
        issued = issued c @ [\<lparr>variant = f, ExchangeHigh = hi, ExchangeLow = lo, Comparand = cmp\<rparr>]\<rparr>)"
  by (simp add: InterlockedCompareExchange128_def Let_def)

lemma icx_differ:
  "atomicValue c \<noteq> cmp \<Longrightarrow>
   InterlockedCompareExchange128 f c hi lo cmp =
     (False, atomicValue c, \<lparr>atomicValue = atomicValue c,
        issued = issued c @ [\<lparr>variant = f, ExchangeHigh = hi, ExchangeLow = lo, Comparand = cmp\<rparr>]\<rparr>)"
  by (simp add: InterlockedCompareExchange128_def Let_def)

lemma wide_load_eq:
  "atomic_impl_wide_load t c order =
     (if def_NDEBUG t \<or> order = memory_order_relaxed \<or> order = memory_order_acquire \<or>
         order = memory_order_consume
      then Inr (atomicValue c,
             \<lparr>atomicValue = atomicValue c,
              issued = issued c @
                [\<lparr>variant = (if SWIFT_HAS_MSVC_ARM_ATOMICS t \<and> order \<noteq> memory_order_acquire
                              then NoFence else FullFence),
                  ExchangeHigh = 0, ExchangeLow = 0, Comparand = (0, 0)\<rparr>]\<rparr>)
      else Inl AssertionFailure)"
  by (cases "atomicValue c = (0, 0)")
     (simp_all add: atomic_impl_wide_load_def c_assert_def icx_equal icx_differ)

lemma wide_cas_Inl:
  "(atomic_impl_wide_compare_exchange_weak t c oldValue newValue so fo = Inl e) =
   (e = AssertionFailure \<and> \<not> def_NDEBUG t \<and>
    \<not> ((fo = memory_order_relaxed \<or> fo = memory_order_acquire \<or> fo = memory_order_consume) \<and>
       (so = memory_order_relaxed \<or> so = memory_order_release)))"
  by (auto simp: atomic_impl_wide_compare_exchange_weak_def c_assert_def)

lemma wide_cas_Inr:
  assumes "def_NDEBUG t \<or>
           ((fo = memory_order_relaxed \<or> fo = memory_order_acquire \<or> fo = memory_order_consume) \<and>
            (so = memory_order_relaxed \<or> so = memory_order_release))"
  shows "atomic_impl_wide_compare_exchange_weak t c oldValue newValue so fo =
         Inr (InterlockedCompareExchange128
                (if SWIFT_HAS_MSVC_ARM_ATOMICS t
                 then (if so = memory_order_relaxed \<and> fo \<noteq> memory_order_acquire then NoFence
                       else if so = memory_order_relaxed then AcquireFence
                       else if fo \<noteq> memory_order_acquire then ReleaseFence
                       else FullFence)
                 else FullFence)
                c (snd newValue) (fst newValue) oldValue)"
  using assms by (auto simp: atomic_impl_wide_compare_exchange_weak_def c_assert_def)

lemma generic_cas_eq:
  "atomic_impl_compare_exchange_weak spurious c oldValue newValue so fo =
     (if fo = memory_order_release \<or> fo = memory_order_acq_rel then Inl UndefinedBehaviour
      else if val c = oldValue \<and> \<not> spurious then Inr (True, oldValue, c\<lparr>val := newValue\<rparr>)
      else Inr (False, val c, c))"
  by (simp add: atomic_impl_compare_exchange_weak_def std_atomic_compare_exchange_weak_def)

subsection \<open>Ordering validation of the wide compare-exchange\<close>

text \<open>
  C3. In a build with assertions (\<^verbatim>\<open>NDEBUG\<close> not defined) the wide cell's
  \<open>compare_exchange_weak\<close> fails an assertion exactly when it is not the case that
  \<open>failureOrder\<close> is one of relaxed, acquire, consume and \<open>successOrder\<close> is
  one of relaxed, release. In particular \<open>successOrder = acquire\<close> is rejected,
  whatever the failure order.
\<close>

theorem wide_compare_exchange_weak_asserts:
  "\<not> def_NDEBUG t \<longrightarrow>
     ((atomic_impl_wide_compare_exchange_weak t c oldValue newValue successOrder failureOrder
         = Inl AssertionFailure) =
      (\<not> (failureOrder \<in> {memory_order_relaxed, memory_order_acquire, memory_order_consume} \<and>
          successOrder \<in> {memory_order_relaxed, memory_order_release})))
     \<and> atomic_impl_wide_compare_exchange_weak t c oldValue newValue memory_order_acquire
         failureOrder = Inl AssertionFailure"
  by (auto simp: wide_cas_Inl)

theorem wide_compare_exchange_weak_asserts_witness:
  "\<not> def_NDEBUG win64_x64_debug \<and>
   atomic_impl_wide_compare_exchange_weak win64_x64_debug (atomic_impl_wide_ctor (0, 0))
     (0, 0) (42, 0) memory_order_acquire memory_order_relaxed = Inl AssertionFailure \<and>
   atomic_impl_wide_compare_exchange_weak win64_x64_debug (atomic_impl_wide_ctor (0, 0))
     (0, 0) (42, 0) memory_order_release memory_order_relaxed \<noteq> Inl AssertionFailure"
  using wide_compare_exchange_weak_asserts [of win64_x64_debug "atomic_impl_wide_ctor (0, 0)"
      "(0, 0)" "(42, 0)" memory_order_release memory_order_relaxed]
    wide_compare_exchange_weak_asserts [of win64_x64_debug "atomic_impl_wide_ctor (0, 0)"
      "(0, 0)" "(42, 0)" memory_order_acquire memory_order_relaxed]
  by (simp add: win64_x64_debug_def)

subsection \<open>Choice of the instruction variant\<close>

text \<open>
  C2. For every legal ordering pair (\<open>successOrder\<close> relaxed or release,
  \<open>failureOrder\<close> relaxed, acquire or consume) the wide cell's
  \<open>compare_exchange_weak\<close> returns and issues exactly one more intrinsic. Where
  \<^verbatim>\<open>SWIFT_HAS_MSVC_ARM_ATOMICS\<close> holds it is the no-fence variant when the success
  order is relaxed and the failure order is not acquire, the acquire variant when the
  success order is relaxed and the failure order is acquire, the release variant when
  the success order is release and the failure order is not acquire, and the
  fully-fenced variant otherwise: the weakest that serves both, since the variant has
  an acquire fence exactly when the failure order is acquire and a release fence
  exactly when the success order is release. Where the macro does not hold, every
  pair takes the fully-fenced variant.
\<close>

theorem wide_compare_exchange_weak_variant:
  assumes "successOrder \<in> {memory_order_relaxed, memory_order_release}"
    and "failureOrder \<in> {memory_order_relaxed, memory_order_acquire, memory_order_consume}"
  shows "\<exists>r oldValue' c' f.
           atomic_impl_wide_compare_exchange_weak t c oldValue newValue successOrder failureOrder
             = Inr (r, oldValue', c') \<and>
           map variant (issued c') = map variant (issued c) @ [f] \<and>
           f = (if SWIFT_HAS_MSVC_ARM_ATOMICS t
                then (if successOrder = memory_order_relaxed \<and>
                         failureOrder \<noteq> memory_order_acquire
                      then NoFence
                      else if successOrder = memory_order_relaxed \<and>
                              failureOrder = memory_order_acquire
                      then AcquireFence
                      else if successOrder = memory_order_release \<and>
                              failureOrder \<noteq> memory_order_acquire
                      then ReleaseFence
                      else FullFence)
                else FullFence) \<and>
           (SWIFT_HAS_MSVC_ARM_ATOMICS t \<longrightarrow>
              ((f = AcquireFence \<or> f = FullFence) = (failureOrder = memory_order_acquire)) \<and>
              ((f = ReleaseFence \<or> f = FullFence) = (successOrder = memory_order_release)))"
proof -
  from assms have ok: "def_NDEBUG t \<or>
      ((failureOrder = memory_order_relaxed \<or> failureOrder = memory_order_acquire \<or>
        failureOrder = memory_order_consume) \<and>
       (successOrder = memory_order_relaxed \<or> successOrder = memory_order_release))"
    by auto
  show ?thesis
  proof (cases "atomicValue c = oldValue")
    case True
    with assms show ?thesis
      by (auto simp: wide_cas_Inr [OF ok] icx_equal)
  next
    case False
    with assms show ?thesis
      by (auto simp: wide_cas_Inr [OF ok] icx_differ)
  qed
qed

theorem wide_compare_exchange_weak_variant_witness:
  "map variant (issued (snd (snd (projr
     (atomic_impl_wide_compare_exchange_weak win64_arm64_debug (atomic_impl_wide_ctor (0, 0))
        (0, 0) (42, 0) memory_order_release memory_order_relaxed))))) = [ReleaseFence] \<and>
   map variant (issued (snd (snd (projr
     (atomic_impl_wide_compare_exchange_weak win64_arm64_debug (atomic_impl_wide_ctor (0, 0))
        (0, 0) (42, 0) memory_order_relaxed memory_order_acquire))))) = [AcquireFence] \<and>
   map variant (issued (snd (snd (projr
     (atomic_impl_wide_compare_exchange_weak win64_arm64_debug (atomic_impl_wide_ctor (0, 0))
        (0, 0) (42, 0) memory_order_relaxed memory_order_consume))))) = [NoFence] \<and>
   map variant (issued (snd (snd (projr
     (atomic_impl_wide_compare_exchange_weak win64_arm64_debug (atomic_impl_wide_ctor (0, 0))
        (0, 0) (42, 0) memory_order_release memory_order_acquire))))) = [FullFence] \<and>
   map variant (issued (snd (snd (projr
     (atomic_impl_wide_compare_exchange_weak win64_x64_debug (atomic_impl_wide_ctor (0, 0))
        (0, 0) (42, 0) memory_order_relaxed memory_order_relaxed))))) = [FullFence]"
  using
    wide_compare_exchange_weak_variant [of memory_order_release memory_order_relaxed
      win64_arm64_debug "atomic_impl_wide_ctor (0, 0)" "(0, 0)" "(42, 0)"]
    wide_compare_exchange_weak_variant [of memory_order_relaxed memory_order_acquire
      win64_arm64_debug "atomic_impl_wide_ctor (0, 0)" "(0, 0)" "(42, 0)"]
    wide_compare_exchange_weak_variant [of memory_order_relaxed memory_order_consume
      win64_arm64_debug "atomic_impl_wide_ctor (0, 0)" "(0, 0)" "(42, 0)"]
    wide_compare_exchange_weak_variant [of memory_order_release memory_order_acquire
      win64_arm64_debug "atomic_impl_wide_ctor (0, 0)" "(0, 0)" "(42, 0)"]
    wide_compare_exchange_weak_variant [of memory_order_relaxed memory_order_relaxed
      win64_x64_debug "atomic_impl_wide_ctor (0, 0)" "(0, 0)" "(42, 0)"]
  by (auto simp: atomic_impl_wide_ctor_def SWIFT_HAS_MSVC_ARM_ATOMICS_def
      win64_arm64_debug_def win64_x64_debug_def)

subsection \<open>A compare-exchange that does not match\<close>

text \<open>
  C1, as stated, for every call: refuted on the wide cell. With assertions on, the
  orderings \<^verbatim>\<open>seq_cst, seq_cst\<close>, which \<^verbatim>\<open>std::atomic\<close> takes, stop the wide
  cell at its assertion: with the cell at 7, expected 3 and desired 9 the call does not
  return failure, it aborts.
\<close>

theorem compare_exchange_weak_mismatch_counterexample:
  "atomic_impl_wide_compare_exchange_weak win64_x64_debug (atomic_impl_wide_ctor (7, 0))
     (3, 0) (9, 0) memory_order_seq_cst memory_order_seq_cst = Inl AssertionFailure"
  by (simp add: wide_cas_Inl win64_x64_debug_def)

text \<open>
  C1, amended to the calls each cell accepts. Generic cell: a failure order other than
  release and acq_rel. Wide cell: a success order in relaxed, release and a failure
  order in relaxed, acquire, consume, or any orderings when \<^verbatim>\<open>NDEBUG\<close> is defined.
  Such a call with \<open>expected\<close> different from the cell's value \<open>v\<close> returns
  failure, writes \<open>v\<close> into \<open>expected\<close> and leaves the stored value as it was,
  and a load that the cell accepts then returns \<open>v\<close>. On the generic cell this
  holds whether or not the weak form fails spuriously.
\<close>

theorem compare_exchange_weak_mismatch:
  "(expected \<noteq> val g \<longrightarrow>
      failureOrder \<noteq> memory_order_release \<longrightarrow> failureOrder \<noteq> memory_order_acq_rel \<longrightarrow>
        atomic_impl_compare_exchange_weak spurious g expected desired successOrder failureOrder
          = Inr (False, val g, g) \<and>
        (order \<noteq> memory_order_release \<longrightarrow> order \<noteq> memory_order_acq_rel \<longrightarrow>
           atomic_impl_load g order = Inr (val g)))
   \<and>
   (oldValue \<noteq> atomicValue w \<longrightarrow>
      def_NDEBUG t \<or>
      (successOrder \<in> {memory_order_relaxed, memory_order_release} \<and>
       failureOrder \<in> {memory_order_relaxed, memory_order_acquire, memory_order_consume}) \<longrightarrow>
        (\<exists>w'. atomic_impl_wide_compare_exchange_weak t w oldValue newValue successOrder
                 failureOrder = Inr (False, atomicValue w, w') \<and>
              atomicValue w' = atomicValue w \<and>
              (def_NDEBUG t \<or>
               order \<in> {memory_order_relaxed, memory_order_acquire, memory_order_consume} \<longrightarrow>
                 (\<exists>w''. atomic_impl_wide_load t w' order = Inr (atomicValue w, w'')))))"
proof (intro conjI impI)
  assume "expected \<noteq> val g" "failureOrder \<noteq> memory_order_release"
    "failureOrder \<noteq> memory_order_acq_rel"
  then show "atomic_impl_compare_exchange_weak spurious g expected desired successOrder
      failureOrder = Inr (False, val g, g)"
    by (auto simp: generic_cas_eq)
next
  assume "order \<noteq> memory_order_release" "order \<noteq> memory_order_acq_rel"
  then show "atomic_impl_load g order = Inr (val g)"
    by (simp add: atomic_impl_load_def std_atomic_load_def)
next
  assume ne: "oldValue \<noteq> atomicValue w"
    and ok: "def_NDEBUG t \<or>
      (successOrder \<in> {memory_order_relaxed, memory_order_release} \<and>
       failureOrder \<in> {memory_order_relaxed, memory_order_acquire, memory_order_consume})"
  from ok have ok': "def_NDEBUG t \<or>
      ((failureOrder = memory_order_relaxed \<or> failureOrder = memory_order_acquire \<or>
        failureOrder = memory_order_consume) \<and>
       (successOrder = memory_order_relaxed \<or> successOrder = memory_order_release))"
    by auto
  from ne have ne': "atomicValue w \<noteq> oldValue" by simp
  show "\<exists>w'. atomic_impl_wide_compare_exchange_weak t w oldValue newValue successOrder
                 failureOrder = Inr (False, atomicValue w, w') \<and>
              atomicValue w' = atomicValue w \<and>
              (def_NDEBUG t \<or>
               order \<in> {memory_order_relaxed, memory_order_acquire, memory_order_consume} \<longrightarrow>
                 (\<exists>w''. atomic_impl_wide_load t w' order = Inr (atomicValue w, w'')))"
    by (auto simp: wide_cas_Inr [OF ok'] icx_differ [OF ne'] wide_load_eq)
qed

theorem compare_exchange_weak_mismatch_witness:
  "atomic_impl_compare_exchange_weak False (atomic_impl_ctor (7::int)) 3 9
     memory_order_seq_cst memory_order_seq_cst = Inr (False, 7, atomic_impl_ctor 7) \<and>
   atomic_impl_load (atomic_impl_ctor (7::int)) memory_order_seq_cst = Inr 7 \<and>
   (\<exists>w'. atomic_impl_wide_compare_exchange_weak win64_x64_debug (atomic_impl_wide_ctor (7, 0))
            (3, 0) (9, 0) memory_order_release memory_order_acquire = Inr (False, (7, 0), w') \<and>
          atomicValue w' = (7, 0) \<and>
          (\<exists>w''. atomic_impl_wide_load win64_x64_debug w' memory_order_acquire
                    = Inr ((7, 0), w'')))"
  using compare_exchange_weak_mismatch [of "3::int" "atomic_impl_ctor 7" memory_order_seq_cst
      False 9 memory_order_seq_cst memory_order_seq_cst]
    compare_exchange_weak_mismatch [of "3::int" "atomic_impl_ctor 7" memory_order_acquire
      False 9 memory_order_release memory_order_acquire
      "(3, 0)" "atomic_impl_wide_ctor (7, 0)" win64_x64_debug "(9, 0)"]
  by (simp add: atomic_impl_ctor_def atomic_impl_wide_ctor_def)

subsection \<open>The wide load\<close>

text \<open>
  C4. For every order in relaxed, acquire, consume, the wide cell's \<open>load\<close> is one
  compare-exchange intrinsic with the comparand 0, 0 and the new value 0, 0. The
  intrinsic's comparison succeeds exactly when the cell holds zero; in both cases it
  reports the cell's contents, and the load returns them.
\<close>

theorem wide_load_returns_contents:
  assumes "order \<in> {memory_order_relaxed, memory_order_acquire, memory_order_consume}"
  shows "\<exists>f c'.
           InterlockedCompareExchange128 f c 0 0 (0, 0)
             = (atomicValue c = (0, 0), atomicValue c, c') \<and>
           atomic_impl_wide_load t c order = Inr (atomicValue c, c')"
proof -
  define f where
    "f = (if SWIFT_HAS_MSVC_ARM_ATOMICS t \<and> order \<noteq> memory_order_acquire
          then NoFence else FullFence)"
  define c' where "c' = snd (snd (InterlockedCompareExchange128 f c 0 0 (0, 0)))"
  have cx: "InterlockedCompareExchange128 f c 0 0 (0, 0)
              = (atomicValue c = (0, 0), atomicValue c, c')"
    unfolding c'_def
    by (cases "atomicValue c = (0, 0)") (simp_all add: icx_equal icx_differ)
  have "atomic_impl_wide_load t c order = Inr (atomicValue c, c')"
    using assms unfolding c'_def f_def
    by (cases "atomicValue c = (0, 0)") (auto simp: wide_load_eq icx_equal icx_differ)
  with cx show ?thesis by blast
qed

theorem wide_load_returns_contents_witness:
  "(\<exists>c'. atomic_impl_wide_load win64_x64_debug (atomic_impl_wide_ctor (0, 0))
            memory_order_acquire = Inr ((0, 0), c')) \<and>
   (\<exists>c'. atomic_impl_wide_load win64_x64_debug (atomic_impl_wide_ctor (7, 0))
            memory_order_relaxed = Inr ((7, 0), c'))"
  using
    wide_load_returns_contents [of memory_order_acquire "atomic_impl_wide_ctor (0, 0)"
      win64_x64_debug]
    wide_load_returns_contents [of memory_order_relaxed "atomic_impl_wide_ctor (7, 0)"
      win64_x64_debug]
  by (auto simp: atomic_impl_wide_ctor_def)

text \<open>
  C10. The wide cell's \<open>load\<close> never changes the stored value, whatever the
  value, the order and the build: where the assertion lets it run (\<^verbatim>\<open>NDEBUG\<close>, or
  an order in relaxed, acquire, consume) it returns and the cell holds what it held;
  otherwise the assertion fires before anything runs. Of the intrinsic it issues: the
  comparison with the sentinel succeeds exactly when the cell holds zero, and then
  zero is stored over zero; when it fails nothing is stored.
\<close>

theorem wide_load_leaves_contents:
  "(def_NDEBUG t \<or>
    order \<in> {memory_order_relaxed, memory_order_acquire, memory_order_consume} \<longrightarrow>
      (\<exists>r c'. atomic_impl_wide_load t c order = Inr (r, c') \<and>
               atomicValue c' = atomicValue c)) \<and>
   (\<not> (def_NDEBUG t \<or>
       order \<in> {memory_order_relaxed, memory_order_acquire, memory_order_consume}) \<longrightarrow>
      atomic_impl_wide_load t c order = Inl AssertionFailure) \<and>
   fst (InterlockedCompareExchange128 f c 0 0 (0, 0)) = (atomicValue c = (0, 0)) \<and>
   atomicValue (snd (snd (InterlockedCompareExchange128 f c 0 0 (0, 0)))) = atomicValue c"
  by (cases "atomicValue c = (0, 0)") (auto simp: wide_load_eq icx_equal icx_differ)

theorem wide_load_leaves_contents_witness:
  "(\<exists>r c'. atomic_impl_wide_load win64_x64_debug (atomic_impl_wide_ctor (0, 0))
              memory_order_consume = Inr (r, c') \<and> atomicValue c' = (0, 0)) \<and>
   (\<exists>r c'. atomic_impl_wide_load win64_x64_debug (atomic_impl_wide_ctor (7, 0))
              memory_order_consume = Inr (r, c') \<and> atomicValue c' = (7, 0)) \<and>
   atomic_impl_wide_load win64_x64_debug (atomic_impl_wide_ctor (7, 0))
     memory_order_seq_cst = Inl AssertionFailure"
  using
    wide_load_leaves_contents [of win64_x64_debug memory_order_consume
      "atomic_impl_wide_ctor (0, 0)" FullFence]
    wide_load_leaves_contents [of win64_x64_debug memory_order_consume
      "atomic_impl_wide_ctor (7, 0)" FullFence]
    wide_load_leaves_contents [of win64_x64_debug memory_order_seq_cst
      "atomic_impl_wide_ctor (7, 0)" FullFence]
  by (simp add: atomic_impl_wide_ctor_def win64_x64_debug_def)

subsection \<open>Orders that a load does not take\<close>




subsection \<open>Load after a successful compare-exchange\<close>

text \<open>
  C7. On either cell, constructed with an initial value (0 in the claim): if
  \<open>compare_exchange_weak\<close> with that value as \<open>expected\<close>, a desired value (42),
  success order release and failure order relaxed reports success, then
  \<open>load(acquire)\<close> returns the desired value. On the generic cell the call reports
  success unless it fails spuriously; on the wide cell it always does.
\<close>

theorem load_after_successful_exchange:
  "(atomic_impl_compare_exchange_weak spurious (atomic_impl_ctor init) init desired
      memory_order_release memory_order_relaxed = Inr (True, e, g') \<longrightarrow>
      atomic_impl_load g' memory_order_acquire = Inr desired) \<and>
   atomic_impl_compare_exchange_weak False (atomic_impl_ctor init) init desired
      memory_order_release memory_order_relaxed
      = Inr (True, init, atomic_impl_ctor desired) \<and>
   (\<exists>w'. atomic_impl_wide_compare_exchange_weak t (atomic_impl_wide_ctor winit) winit wdesired
            memory_order_release memory_order_relaxed = Inr (True, winit, w') \<and>
          (\<exists>w''. atomic_impl_wide_load t w' memory_order_acquire = Inr (wdesired, w'')))"
proof (intro conjI impI)
  assume "atomic_impl_compare_exchange_weak spurious (atomic_impl_ctor init) init desired
      memory_order_release memory_order_relaxed = Inr (True, e, g')"
  then have "g' = \<lparr>val = desired\<rparr>"
    by (auto simp: generic_cas_eq atomic_impl_ctor_def split: if_splits)
  then show "atomic_impl_load g' memory_order_acquire = Inr desired"
    by (simp add: atomic_impl_load_def std_atomic_load_def)
next
  show "atomic_impl_compare_exchange_weak False (atomic_impl_ctor init) init desired
      memory_order_release memory_order_relaxed
      = Inr (True, init, atomic_impl_ctor desired)"
    by (simp add: generic_cas_eq atomic_impl_ctor_def)
next
  have eq: "atomicValue (atomic_impl_wide_ctor winit) = winit"
    by (simp add: atomic_impl_wide_ctor_def)
  show "\<exists>w'. atomic_impl_wide_compare_exchange_weak t (atomic_impl_wide_ctor winit) winit
            wdesired memory_order_release memory_order_relaxed = Inr (True, winit, w') \<and>
          (\<exists>w''. atomic_impl_wide_load t w' memory_order_acquire = Inr (wdesired, w''))"
    by (simp add: wide_cas_Inr icx_equal [OF eq] wide_load_eq)
qed

theorem load_after_successful_exchange_witness:
  "atomic_impl_compare_exchange_weak False (atomic_impl_ctor (0::int)) 0 42
      memory_order_release memory_order_relaxed = Inr (True, 0, atomic_impl_ctor 42) \<and>
   atomic_impl_load (atomic_impl_ctor (42::int)) memory_order_acquire = Inr 42 \<and>
   (\<exists>w'. atomic_impl_wide_compare_exchange_weak win64_x64_debug (atomic_impl_wide_ctor (0, 0))
            (0, 0) (42, 0) memory_order_release memory_order_relaxed = Inr (True, (0, 0), w') \<and>
          (\<exists>w''. atomic_impl_wide_load win64_x64_debug w' memory_order_acquire
                    = Inr ((42, 0), w'')))"
  using load_after_successful_exchange [of False "0::int" 42 0 "atomic_impl_ctor 42"
      win64_x64_debug "(0, 0)" "(42, 0)"]
  by simp

subsection \<open>The two cells agree\<close>

lemma step_agree:
  assumes "legal_for_both x" and "val g = atomicValue w"
  shows "\<exists>r g' w'. generic_step False g x = Inr (r, g') \<and> wide_step t w x = Inr (r, w') \<and>
           val g' = atomicValue w'"
proof (cases x)
  case (Load order)
  with assms show ?thesis
    by (auto simp: atomic_impl_load_def std_atomic_load_def wide_load_eq)
next
  case (CompareExchangeWeak expected desired so fo)
  with assms have ok: "def_NDEBUG t \<or>
      ((fo = memory_order_relaxed \<or> fo = memory_order_acquire \<or> fo = memory_order_consume) \<and>
       (so = memory_order_relaxed \<or> so = memory_order_release))"
    by simp
  show ?thesis
  proof (cases "atomicValue w = expected")
    case True
    with assms CompareExchangeWeak show ?thesis
      by (auto simp: generic_cas_eq wide_cas_Inr [OF ok] icx_equal)
  next
    case False
    with assms CompareExchangeWeak show ?thesis
      by (auto simp: generic_cas_eq wide_cas_Inr [OF ok] icx_differ)
  qed
qed

text \<open>
  C6. For every list of \<open>load\<close> and \<open>compare_exchange_weak\<close> calls whose
  orderings both cells take, run on a generic and on a wide cell that start with the
  same value, with no spurious failure of the native primitive (the run is
  deterministic): both runs complete, they yield the same list of results (each loaded
  value, each success flag and each value written back into \<open>expected\<close>), and the
  cells end with the same stored value.
\<close>

theorem generic_wide_equivalent:
  assumes "list_all legal_for_both xs" and "val g = atomicValue w"
  shows "\<exists>rs g' w'. run_generic g (map (Pair False) xs) = Inr (rs, g') \<and>
           run_wide t w xs = Inr (rs, w') \<and> val g' = atomicValue w'"
  using assms
proof (induction xs arbitrary: g w)
  case Nil
  then show ?case by simp
next
  case (Cons x xs)
  from Cons.prems have lx: "legal_for_both x" and lxs: "list_all legal_for_both xs"
    by simp_all
  from step_agree [OF lx Cons.prems(2), of t]
  obtain r g1 w1 where s: "generic_step False g x = Inr (r, g1)"
    "wide_step t w x = Inr (r, w1)" "val g1 = atomicValue w1"
    by blast
  from Cons.IH [OF lxs s(3)]
  obtain rs g' w' where rest: "run_generic g1 (map (Pair False) xs) = Inr (rs, g')"
    "run_wide t w1 xs = Inr (rs, w')" "val g' = atomicValue w'"
    by blast
  from s rest show ?case by simp
qed

theorem generic_wide_equivalent_witness:
  "run_generic (atomic_impl_ctor ((7, 0) :: int64x2))
     (map (Pair False)
       [CompareExchangeWeak (3, 0) (9, 0) memory_order_release memory_order_acquire,
        Load memory_order_acquire,
        CompareExchangeWeak (7, 0) (9, 0) memory_order_relaxed memory_order_relaxed,
        Load memory_order_consume])
     = Inr ([Exchanged False (7, 0), Loaded (7, 0), Exchanged True (7, 0), Loaded (9, 0)],
            atomic_impl_ctor (9, 0)) \<and>
   (\<exists>w'. run_wide win64_x64_debug (atomic_impl_wide_ctor (7, 0))
       [CompareExchangeWeak (3, 0) (9, 0) memory_order_release memory_order_acquire,
        Load memory_order_acquire,
        CompareExchangeWeak (7, 0) (9, 0) memory_order_relaxed memory_order_relaxed,
        Load memory_order_consume]
     = Inr ([Exchanged False (7, 0), Loaded (7, 0), Exchanged True (7, 0), Loaded (9, 0)], w')
     \<and> atomicValue w' = (9, 0))"
proof -
  let ?xs = "[CompareExchangeWeak (3, 0) (9, 0) memory_order_release memory_order_acquire,
        Load memory_order_acquire,
        CompareExchangeWeak (7, 0) (9, 0) memory_order_relaxed memory_order_relaxed,
        Load memory_order_consume] :: int64x2 cell_op list"
  have l: "list_all legal_for_both ?xs"
    by simp
  have v: "val (atomic_impl_ctor ((7, 0) :: int64x2))
             = atomicValue (atomic_impl_wide_ctor (7, 0))"
    by (simp add: atomic_impl_ctor_def atomic_impl_wide_ctor_def)
  have g: "run_generic (atomic_impl_ctor ((7, 0) :: int64x2)) (map (Pair False) ?xs)
     = Inr ([Exchanged False (7, 0), Loaded (7, 0), Exchanged True (7, 0), Loaded (9, 0)],
            atomic_impl_ctor (9, 0))"
    by (simp add: generic_cas_eq atomic_impl_load_def std_atomic_load_def atomic_impl_ctor_def)
  from generic_wide_equivalent [OF l v, of win64_x64_debug]
  obtain rs g' w' where
    a: "run_generic (atomic_impl_ctor ((7, 0) :: int64x2)) (map (Pair False) ?xs)
          = Inr (rs, g')" and
    b: "run_wide win64_x64_debug (atomic_impl_wide_ctor (7, 0)) ?xs = Inr (rs, w')" and
    c: "val g' = atomicValue w'"
    by blast
  from a [unfolded g]
  have rs: "rs = [Exchanged False (7, 0), Loaded (7, 0), Exchanged True (7, 0), Loaded (9, 0)]"
    and g': "g' = atomic_impl_ctor (9, 0)"
    by simp_all
  from c g' have w': "atomicValue w' = (9, 0)"
    by (simp add: atomic_impl_ctor_def)
  from b rs w' have "\<exists>w'. run_wide win64_x64_debug (atomic_impl_wide_ctor (7, 0)) ?xs
      = Inr ([Exchanged False (7, 0), Loaded (7, 0), Exchanged True (7, 0), Loaded (9, 0)], w')
      \<and> atomicValue w' = (9, 0)"
    by blast
  with g show ?thesis by blast
qed

end
